theory Spec2Isabelle
  imports Complex_Main
begin

section \<open>The client state store (frontend/src/store/appStore.js)\<close>

text \<open>
  The store is a zustand store: one JavaScript object whose fields are replaced by the
  actions through \<open>set\<close>. It is modelled as a record, and every action as a function
  from the store to the updated store. Fields that an action does not name in the object
  it passes to \<open>set\<close> keep their value, which zustand's shallow merge guarantees.
\<close>

subsection \<open>JavaScript values\<close>

text \<open>
  The values held in the configuration objects: primitives and nested objects. An object
  is read through its keys only, so \<open>JObj\<close> carries the list of its entries.
\<close>

datatype json =
    JUndefined
  | JNull
  | JBool bool
  | JNum real
  | JStr string
  | JObj "(string \<times> json) list"

text \<open>A plain object with arbitrary top-level keys: a partial map from key to value.\<close>

type_synonym jsobject = "string \<Rightarrow> json option"

text \<open>
  The object spread \<open>{ ...a, ...b }\<close>: every own key of \<open>a\<close>, then every own key of
  \<open>b\<close>, a later key overwriting an earlier one.
\<close>

definition spread :: "jsobject \<Rightarrow> jsobject \<Rightarrow> jsobject" where
  "spread a b = (\<lambda>k. case b k of Some v \<Rightarrow> Some v | None \<Rightarrow> a k)"

text \<open>
  Reading an array at a number: \<open>xs[i]\<close> is \<open>undefined\<close> (here \<open>None\<close>) when
  \<open>i\<close> is negative or not below the length; it never throws.
\<close>

definition js_index :: "'a list \<Rightarrow> int \<Rightarrow> 'a option" where
  "js_index xs i = (if 0 \<le> i \<and> i < int (length xs) then Some (xs ! nat i) else None)"

subsection \<open>Courses, slides and messages\<close>

text \<open>
  A slide of \<open>slides_content\<close>; the player reads its \<open>transcript\<close>, which may be absent.
\<close>

record slide =
  title :: string
  transcript :: "string option"

text \<open>
  A course object as the backend delivers it. \<open>slides_content\<close> and \<open>audio_files\<close>
  may be absent (\<open>None\<close>); an entry of \<open>audio_files\<close> may be \<open>null\<close>.
\<close>

record course =
  session_id :: string
  slides_content :: "slide list option"
  audio_files :: "string option list option"

text \<open>
  A message of the transcript. \<open>content\<close> is \<open>None\<close> when the value stored is
  \<open>undefined\<close>; \<open>timestamp\<close> is the ISO string of the clock reading.
\<close>

record message =
  role :: string
  content :: "string option"
  timestamp :: string

subsection \<open>The store\<close>

text \<open>
  The fields of the store, in the order of the source. The numbers that count or index
  slides are integers; \<open>audioProgress\<close> is a percentage.
\<close>

record store =
  isGenerating :: bool
  currentStep :: "string option"
  progress :: int
  courseConfig :: jsobject
  userSettings :: jsobject
  availableVoices :: "json list"
  courseTemplates :: "json list"
  currentSession :: "string option"
  currentCourse :: "course option"
  courses :: "course list"
  currentSlide :: int
  isPlaying :: bool
  audioProgress :: real
  isConversationActive :: bool
  conversationHistory :: "message list"

subsection \<open>Actions\<close>

definition setGenerating :: "bool \<Rightarrow> store \<Rightarrow> store" where
  "setGenerating generating s = s\<lparr>isGenerating := generating\<rparr>"

definition setProgress :: "int \<Rightarrow> string option \<Rightarrow> store \<Rightarrow> store" where
  "setProgress p step s = s\<lparr>progress := p, currentStep := step\<rparr>"

definition updateCourseConfig :: "jsobject \<Rightarrow> store \<Rightarrow> store" where
  "updateCourseConfig config s = s\<lparr>courseConfig := spread (courseConfig s) config\<rparr>"

definition setCurrentSession :: "string option \<Rightarrow> store \<Rightarrow> store" where
  "setCurrentSession session s = s\<lparr>currentSession := session\<rparr>"

definition setCurrentCourse :: "course option \<Rightarrow> store \<Rightarrow> store" where
  "setCurrentCourse c s = s\<lparr>currentCourse := c\<rparr>"

definition setCourses :: "course list \<Rightarrow> store \<Rightarrow> store" where
  "setCourses cs s = s\<lparr>courses := cs\<rparr>"

definition addCourse :: "course \<Rightarrow> store \<Rightarrow> store" where
  "addCourse c s = s\<lparr>courses := c # courses s\<rparr>"

text \<open>
  \<open>state.courses.filter(course => course.session_id !== sessionId)\<close>: on strings the
  strict inequality is inequality of the strings.
\<close>

definition removeCourse :: "string \<Rightarrow> store \<Rightarrow> store" where
  "removeCourse sessionId s =
     s\<lparr>courses := filter (\<lambda>c. session_id c \<noteq> sessionId) (courses s)\<rparr>"

definition setCurrentSlide :: "int \<Rightarrow> store \<Rightarrow> store" where
  "setCurrentSlide i s = s\<lparr>currentSlide := i\<rparr>"

definition setPlaying :: "bool \<Rightarrow> store \<Rightarrow> store" where
  "setPlaying playing s = s\<lparr>isPlaying := playing\<rparr>"

definition setAudioProgress :: "real \<Rightarrow> store \<Rightarrow> store" where
  "setAudioProgress p s = s\<lparr>audioProgress := p\<rparr>"

text \<open>
  \<open>state.currentCourse?.slides_content?.length\<close>: the length of the list, or
  \<open>undefined\<close> (\<open>None\<close>) when there is no course or the course has no
  \<open>slides_content\<close>.
\<close>

definition slides_length :: "store \<Rightarrow> int option" where
  "slides_length s =
     (case currentCourse s of
        None \<Rightarrow> None
      | Some c \<Rightarrow> (case slides_content c of None \<Rightarrow> None | Some xs \<Rightarrow> Some (int (length xs))))"

text \<open>
  \<open>x - 1\<close> on a number or \<open>undefined\<close>: \<open>undefined - 1\<close> is \<open>NaN\<close>, written
  \<open>None\<close>.
\<close>

definition js_minus_one :: "int option \<Rightarrow> int option" where
  "js_minus_one x = (case x of None \<Rightarrow> None | Some n \<Rightarrow> Some (n - 1))"

text \<open>
  \<open>x || 0\<close> on a number: \<open>NaN\<close> and \<open>0\<close> are falsy and give \<open>0\<close>; every
  other number, negative ones included, is truthy and is the result.
\<close>

definition js_or_zero :: "int option \<Rightarrow> int" where
  "js_or_zero x = (case x of None \<Rightarrow> 0 | Some n \<Rightarrow> (if n = 0 then 0 else n))"

text \<open>\<open>const maxSlide = state.currentCourse?.slides_content?.length - 1 || 0\<close>\<close>

definition maxSlide :: "store \<Rightarrow> int" where
  "maxSlide s = js_or_zero (js_minus_one (slides_length s))"

definition nextSlide :: "store \<Rightarrow> store" where
  "nextSlide s = s\<lparr>currentSlide := min (currentSlide s + 1) (maxSlide s)\<rparr>"

definition previousSlide :: "store \<Rightarrow> store" where
  "previousSlide s = s\<lparr>currentSlide := max (currentSlide s - 1) 0\<rparr>"

definition setConversationActive :: "bool \<Rightarrow> store \<Rightarrow> store" where
  "setConversationActive active s = s\<lparr>isConversationActive := active\<rparr>"

definition addConversationMessage :: "message \<Rightarrow> store \<Rightarrow> store" where
  "addConversationMessage m s = s\<lparr>conversationHistory := conversationHistory s @ [m]\<rparr>"

definition clearConversationHistory :: "store \<Rightarrow> store" where
  "clearConversationHistory s = s\<lparr>conversationHistory := []\<rparr>"

definition setUserSettings :: "jsobject \<Rightarrow> store \<Rightarrow> store" where
  "setUserSettings settings s = s\<lparr>userSettings := settings\<rparr>"

definition updateUserSettings :: "jsobject \<Rightarrow> store \<Rightarrow> store" where
  "updateUserSettings settingsUpdate s =
     s\<lparr>userSettings := spread (userSettings s) settingsUpdate\<rparr>"

text \<open>
  \<open>getCurrentSlideData\<close>: \<open>null\<close> (\<open>None\<close>) when \<open>currentCourse?.slides_content\<close>
  is falsy, else \<open>slides_content[currentSlide] || null\<close>. An array is truthy even when
  empty, and a slide object is truthy, so the \<open>||\<close> only turns \<open>undefined\<close> into
  \<open>null\<close>.
\<close>

definition getCurrentSlideData :: "store \<Rightarrow> slide option" where
  "getCurrentSlideData s =
     (case currentCourse s of
        None \<Rightarrow> None
      | Some c \<Rightarrow>
          (case slides_content c of
             None \<Rightarrow> None
           | Some xs \<Rightarrow> js_index xs (currentSlide s)))"

definition hasNextSlide :: "store \<Rightarrow> bool" where
  "hasNextSlide s = (currentSlide s < maxSlide s)"

definition hasPreviousSlide :: "store \<Rightarrow> bool" where
  "hasPreviousSlide s = (currentSlide s > 0)"

text \<open>The initial store, as \<open>create\<close> builds it.\<close>

definition initialCourseConfig :: jsobject where
  "initialCourseConfig =
     [''topic'' \<mapsto> JStr [], ''complexity'' \<mapsto> JStr ''intermediate'',
      ''duration'' \<mapsto> JStr ''45-60 minutes'', ''learningStyle'' \<mapsto> JStr ''visual'',
      ''slideCount'' \<mapsto> JStr ''auto'', ''contentDensity'' \<mapsto> JStr ''medium'',
      ''batchSize'' \<mapsto> JNum 5, ''voice'' \<mapsto> JStr ''default'', ''speed'' \<mapsto> JNum 1,
      ''prerequisitesHandling'' \<mapsto> JStr ''auto'', ''specializedFocus'' \<mapsto> JStr ''balanced'',
      ''presentationStyle'' \<mapsto> JStr ''professional'', ''visualStyle'' \<mapsto> JStr ''modern'',
      ''colorScheme'' \<mapsto> JStr ''default'', ''theme'' \<mapsto> JStr ''dark'',
      ''layout'' \<mapsto> JStr ''modern'', ''animations'' \<mapsto> JBool True,
      ''autoAdvance'' \<mapsto> JBool True, ''customizations'' \<mapsto> JObj []]"

definition initialUserSettings :: jsobject where
  "initialUserSettings =
     [''tts'' \<mapsto> JObj [(''voice'', JStr ''default''), (''speed'', JNum 1),
                         (''volume'', JNum (8 / 10))],
      ''presentation'' \<mapsto> JObj [(''theme'', JStr ''dark''), (''layout'', JStr ''modern''),
                                  (''animations'', JBool True), (''auto_advance'', JBool True)],
      ''course_defaults'' \<mapsto> JObj [(''complexity'', JStr ''intermediate''),
                                     (''duration'', JStr ''45-60 minutes''),
                                     (''learning_style'', JStr ''visual''),
                                     (''content_density'', JStr ''medium''),
                                     (''batch_size'', JNum 5)],
      ''advanced'' \<mapsto> JObj [(''prerequisites_handling'', JStr ''auto''),
                              (''specialized_focus'', JStr ''balanced''),
                              (''presentation_style'', JStr ''professional'')]]"

definition initialStore :: store where
  "initialStore =
     \<lparr>isGenerating = False, currentStep = None, progress = 0,
      courseConfig = initialCourseConfig, userSettings = initialUserSettings,
      availableVoices = [], courseTemplates = [],
      currentSession = None, currentCourse = None, courses = [],
      currentSlide = 0, isPlaying = False, audioProgress = 0,
      isConversationActive = False, conversationHistory = []\<rparr>"

subsection \<open>Strings\<close>

text \<open>
  A JavaScript string is the list of its code units; the model keeps the code units below
  256, Isabelle's \<open>char\<close>. Of these, the white space and line terminators that
  \<open>String.prototype.trim\<close> strips are tab, line feed, vertical tab, form feed, carriage
  return, space and no-break space.
\<close>

definition js_whitespace :: "char \<Rightarrow> bool" where
  "js_whitespace c = (of_char c \<in> {9, 10, 11, 12, 13, 32, 160 :: nat})"

definition trim :: "string \<Rightarrow> string" where
  "trim t = rev (dropWhile js_whitespace (rev (dropWhile js_whitespace t)))"

text \<open>\<open>a || b\<close> on strings that may be absent: the empty string is falsy, as \<open>undefined\<close> is.\<close>

definition js_or :: "string option \<Rightarrow> string option \<Rightarrow> string option" where
  "js_or a b = (case a of None \<Rightarrow> b | Some x \<Rightarrow> (if x = [] then b else Some x))"

section \<open>Effects and failures of the pages\<close>

text \<open>
  The page components call the backend, the socket, the toaster, the router and the audio
  element. A handler of the model takes the page state, appends what it does to the log
  \<open>effects\<close> in the order of the source, and takes the outcome of every awaited call as an
  argument (its environment), so that each \<open>try\<close>/\<open>catch\<close> of the source is a branch.
  A click handler belongs to the render on screen: the values the component took from the
  store at that render are those of the store the handler runs on, and nothing else
  changes the page while the handler awaits. \<open>processRecording\<close> is not a click
  handler: it runs when a recording stops, with the values of the render in which the
  recording was started, and takes that render as an argument.
\<close>

text \<open>An error as the \<open>catch\<close> blocks inspect it: \<open>error.message\<close> and \<open>error.response?.status\<close>.\<close>

record failure =
  err_message :: string
  err_status :: "int option"

text \<open>
  The slide context object sent with a conversation request; \<open>ctx_transcript\<close> is its key
  \<open>transcript\<close>, and \<open>slide_image_url\<close> is \<open>None\<close> for \<open>null\<close>.
\<close>

record slide_context =
  slide_number :: int
  ctx_transcript :: string
  slide_image_url :: "string option"

text \<open>
  The \<open>src\<close> of the audio element: none yet, the URL of a pre-generated file
  (\<open>/api/audio/file/\<close> and the encoded file name), or an object URL of synthesised audio.
\<close>

datatype audio_source = NoSource | AudioFile string | ObjectUrl

text \<open>
  The calls a handler makes, with the arguments the claims speak about (api/client.js):
  \<^item> \<open>ToastError\<close>, \<open>ToastSuccess\<close>, \<open>ToastPlain\<close>: \<open>toast.error\<close>, \<open>toast.success\<close>,
    \<open>toast\<close> with the message; \<open>ToastSuccessSummary\<close>: the success message with
    \<open>summary.total_slides\<close> and \<open>summary.audio_files_count\<close> interpolated;
  \<^item> \<open>Navigate\<close>: \<open>navigate(path)\<close>;
  \<^item> \<open>SocketConnect\<close>: \<open>socket.connect()\<close>; \<open>SocketEmitJoinSession sid\<close>:
    \<open>socket.emit('join_session', { session_id: sid })\<close>;
  \<^item> \<open>PostGenerateCourse config\<close>: \<open>courseAPI.generateCourse(config)\<close>, the POST to
    \<open>/generate-course\<close>;
  \<^item> \<open>DeleteCourse sid\<close>: \<open>courseAPI.deleteCourse(sid)\<close>;
  \<^item> \<open>PostConversationStart sessionId slideContext\<close>:
    \<open>conversationAPI.startConversation(sessionId, slideContext)\<close>;
  \<^item> \<open>PostConversationAsk session question slideContext\<close>:
    \<open>conversationAPI.askQuestion(session, question, slideContext)\<close>;
  \<^item> \<open>PostConversationEnd session\<close>: \<open>conversationAPI.endConversation(session)\<close>;
  \<^item> \<open>PostSttTranscribe\<close>: \<open>audioAPI.transcribeAudio(audioBlob)\<close>;
  \<^item> \<open>PostAudioGenerate transcript\<close>: \<open>audioAPI.generateAudio(slideData, options)\<close> for
    slide data with that transcript;
  \<^item> \<open>AudioPlay source position\<close>: \<open>audioRef.current.play()\<close> on the element with that
    \<open>src\<close> and \<open>currentTime\<close>; \<open>AudioPause\<close>: \<open>audioRef.current.pause()\<close>;
  \<^item> \<open>AiAudioPlay\<close>: \<open>play()\<close> of the spoken answer; \<open>RecorderStart\<close> and
    \<open>RecorderStop\<close>: \<open>mediaRecorderRef.current.start()\<close> and \<open>stop()\<close>.
\<close>

datatype effect =
    ToastError string
  | ToastSuccess string
  | ToastSuccessSummary json json
  | ToastPlain string
  | Navigate string
  | SocketConnect
  | SocketEmitJoinSession string
  | PostGenerateCourse jsobject
  | DeleteCourse string
  | PostConversationStart string slide_context
  | PostConversationAsk "string option" string slide_context
  | PostConversationEnd string
  | PostSttTranscribe
  | PostAudioGenerate "string option"
  | AudioPlay audio_source real
  | AudioPause
  | AiAudioPlay
  | RecorderStart
  | RecorderStop

record page =
  pstore :: store
  effects :: "effect list"

definition toast_error :: "string \<Rightarrow> 'a page_scheme \<Rightarrow> 'a page_scheme" where
  "toast_error msg p = p\<lparr>effects := effects p @ [ToastError msg]\<rparr>"

definition emit :: "effect \<Rightarrow> 'a page_scheme \<Rightarrow> 'a page_scheme" where
  "emit e p = p\<lparr>effects := effects p @ [e]\<rparr>"

definition on_store :: "(store \<Rightarrow> store) \<Rightarrow> 'a page_scheme \<Rightarrow> 'a page_scheme" where
  "on_store f p = p\<lparr>pstore := f (pstore p)\<rparr>"

section \<open>The library page (LibraryPage: handleDeleteCourse)\<close>

text \<open>
  \<open>handleDeleteCourse\<close>: nothing happens unless the user confirms; the course leaves the
  list only after the backend has deleted it, and a rejected request leaves the list as it
  was.
\<close>

definition handleDeleteCourse ::
  "bool \<Rightarrow> failure option \<Rightarrow> string \<Rightarrow> 'a page_scheme \<Rightarrow> 'a page_scheme" where
  "handleDeleteCourse confirmed delete_failure sessionId p =
     (if \<not> confirmed then p
      else (let p1 = emit (DeleteCourse sessionId) p
            in case delete_failure of
                 None \<Rightarrow>
                   emit (ToastSuccess ''Course deleted successfully'')
                     (on_store (removeCourse sessionId) p1)
               | Some e \<Rightarrow> toast_error ''Failed to delete course'' p1))"

section \<open>The generation page (HomePage: socket handlers and handleStartGeneration)\<close>

text \<open>
  The local state of the component that the handlers below write: \<open>progressDetails\<close>,
  the time of the last heartbeat and whether the health check interval is running.
\<close>

record home_page = page +
  progressDetails :: "json option"
  lastHeartbeat :: int
  healthCheck :: bool

text \<open>
  The payload of \<open>course_complete\<close> and of \<open>course_error\<close>, an object in both cases.
  A key the server left out is \<open>None\<close>; \<open>ev_summary\<close> holds \<open>summary.total_slides\<close>
  and \<open>summary.audio_files_count\<close> when \<open>data.summary\<close> is truthy.
\<close>

record complete_event =
  ev_session_id :: "string option"
  ev_course_data :: "course option"
  ev_summary :: "(json \<times> json) option"

record error_event =
  ev_error :: "string option"

definition stopHealthCheck :: "home_page \<Rightarrow> home_page" where
  "stopHealthCheck h = h\<lparr>healthCheck := False\<rparr>"

text \<open>\<open>socket.on('course_complete', (data) => ...)\<close>, run at clock reading \<open>now\<close>.\<close>

definition on_course_complete :: "int \<Rightarrow> complete_event \<Rightarrow> home_page \<Rightarrow> home_page" where
  "on_course_complete now data h =
     (let h1 = h\<lparr>lastHeartbeat := now\<rparr>;
          h2 = on_store (setCurrentSession (ev_session_id data)) h1;
          h3 = on_store (setCurrentCourse (ev_course_data data)) h2;
          h4 = on_store (setGenerating False) h3;
          h5 = stopHealthCheck (h4\<lparr>progressDetails := None\<rparr>);
          h6 = (case ev_summary data of
                  Some (total_slides, audio_files_count) \<Rightarrow>
                    emit (ToastSuccessSummary total_slides audio_files_count) h5
                | None \<Rightarrow> emit (ToastSuccess ''Course generated successfully!'') h5)
      in emit (Navigate (''/presentation/'' @
                 (case ev_session_id data of Some sid \<Rightarrow> sid | None \<Rightarrow> ''undefined''))) h6)"

text \<open>\<open>socket.on('course_error', (data) => ...)\<close>\<close>

definition on_course_error :: "int \<Rightarrow> error_event \<Rightarrow> home_page \<Rightarrow> home_page" where
  "on_course_error now data h =
     (let h1 = h\<lparr>lastHeartbeat := now\<rparr>;
          h2 = on_store (setGenerating False) h1;
          h3 = stopHealthCheck (h2\<lparr>progressDetails := None\<rparr>)
      in toast_error
           (case js_or (ev_error data) None of
              Some msg \<Rightarrow> msg
            | None \<Rightarrow> ''Failed to generate course'') h3)"

text \<open>
  What \<open>handleStartGeneration\<close> awaits: whether the socket is connected when it asks,
  how the connection attempt ends when it is not (\<open>None\<close>: the \<open>connect\<close> event came;
  \<open>Some e\<close>: the promise was rejected with \<open>e\<close>, the timeout after 15 seconds or a
  \<open>connect_error\<close>), and the reply to the generate-course request (\<open>Inl e\<close>: rejected;
  \<open>Inr sid\<close>: \<open>response.data && response.data.session_id\<close>, \<open>None\<close> when falsy).
\<close>

record generation_env =
  socket_connected :: bool
  connect_failure :: "failure option"
  generate_reply :: "failure + string option"

definition socket_timeout :: failure where
  "socket_timeout = \<lparr>err_message = ''Socket connection timeout'', err_status = None\<rparr>"

text \<open>The \<open>catch\<close> block of \<open>handleStartGeneration\<close>.\<close>

definition generation_failed :: "failure \<Rightarrow> home_page \<Rightarrow> home_page" where
  "generation_failed e h =
     (let h1 = on_store (setGenerating False) h
      in if err_message e = ''Socket connection timeout''
         then toast_error ''Connection timeout - please check your network and try again'' h1
         else if err_status e = Some 500
         then toast_error ''Server error - please try again in a moment'' h1
         else toast_error ''Failed to start course generation'' h1)"

text \<open>
  \<open>handleStartGeneration\<close> is an \<open>async\<close> function: it runs to its first \<open>await\<close>,
  and from each resumption to the next \<open>await\<close> or to its return. The model gives the
  page at every \<open>await\<close> the run reaches, in order, and then the page at its return; what
  the user sees while the handler waits is in the list.

  The request and what follows its reply: the page while the request is awaited, then the
  page at the return. The configuration sent is the \<open>courseConfig\<close> the handler was
  created with.
\<close>

definition generation_request ::
  "jsobject \<Rightarrow> generation_env \<Rightarrow> home_page \<Rightarrow> home_page list" where
  "generation_request config env h =
     (let h1 = emit (PostGenerateCourse config) h
      in [h1,
          (case generate_reply env of
             Inl e \<Rightarrow> generation_failed e h1
           | Inr None \<Rightarrow> h1
           | Inr (Some sid) \<Rightarrow>
               (if sid = [] then h1
                else on_store (setCurrentSession (Some sid))
                       (emit (SocketEmitJoinSession sid) h1)))])"

text \<open>
  The run of \<open>handleStartGeneration\<close>. \<open>courseConfig.topic.trim()\<close> is evaluated
  outside the \<open>try\<close>: on a topic that is not a string it throws and the handler is
  rejected (\<open>Inl\<close>) with nothing done. On a blank topic the handler returns without an
  \<open>await\<close>. Otherwise \<open>setGenerating(true)\<close> is the first statement of the \<open>try\<close>;
  with the socket connected the first \<open>await\<close> is the request, and without it the
  handler calls \<open>socket.connect()\<close> and awaits the connection first.
\<close>

datatype js_error = TypeError

definition handleStartGeneration_steps ::
  "generation_env \<Rightarrow> home_page \<Rightarrow> js_error + home_page list" where
  "handleStartGeneration_steps env h =
     (case courseConfig (pstore h) ''topic'' of
        Some (JStr topic) \<Rightarrow>
          (if trim topic = [] then Inr [toast_error ''Please enter a topic to learn'' h]
           else
             (let h1 = on_store (setGenerating True) h
              in if socket_connected env
                 then Inr (generation_request (courseConfig (pstore h)) env h1)
                 else
                   (let h2 = emit SocketConnect h1
                    in case connect_failure env of
                         Some e \<Rightarrow> Inr [h2, generation_failed e h2]
                       | None \<Rightarrow> Inr (h2 # generation_request (courseConfig (pstore h)) env h2))))
      | _ \<Rightarrow> Inl TypeError)"

text \<open>\<open>handleStartGeneration\<close>: the page when the handler has returned.\<close>

definition handleStartGeneration :: "generation_env \<Rightarrow> home_page \<Rightarrow> js_error + home_page" where
  "handleStartGeneration env h =
     (case handleStartGeneration_steps env h of
        Inl e \<Rightarrow> Inl e
      | Inr pages \<Rightarrow> Inr (last pages))"

text \<open>The \<open>disabled\<close> attribute of the Generate button.\<close>

definition generate_disabled :: "store \<Rightarrow> js_error + bool" where
  "generate_disabled s =
     (if isGenerating s then Inr True
      else (case courseConfig s ''topic'' of
              Some (JStr topic) \<Rightarrow> Inr (trim topic = [])
            | _ \<Rightarrow> Inl TypeError))"

definition initialHome :: home_page where
  "initialHome =
     \<lparr>pstore = initialStore, effects = [], progressDetails = None, lastHeartbeat = 0,
      healthCheck = False\<rparr>"

section \<open>The presentation player (PresentationPage)\<close>

text \<open>
  The \<open>audio\<close> element behind \<open>audioRef\<close>: its source, its position in seconds,
  whether it is paused, and whether the \<open>onended\<close> listener that advances the deck is
  installed.
\<close>

record audio_element =
  src :: audio_source
  currentTime :: real
  paused :: bool
  onended :: bool

record slide_image =
  image_url :: "string option"

text \<open>
  The component's own state (\<open>useState\<close> and \<open>useRef\<close>) next to the store and the log.
  \<open>mediaRecorderRef\<close> and \<open>aiAudioRef\<close> say whether the ref holds an object.
\<close>

record presentation_page = page +
  sessionId :: string
  isRecording :: bool
  conversationSession :: "string option"
  pausedPosition :: real
  showResumeOptions :: bool
  slideImages :: "slide_image list"
  isAISpeaking :: bool
  manuallyResumed :: bool
  audioRef :: "audio_element option"
  mediaRecorderRef :: bool
  aiAudioRef :: bool

text \<open>The effects a handler run appended to the log of the page it started from.\<close>

definition issued :: "'a page_scheme \<Rightarrow> 'b page_scheme \<Rightarrow> effect list" where
  "issued p p' = drop (length (effects p)) (effects p')"

subsection \<open>Slide audio\<close>

definition pauseAudio :: "presentation_page \<Rightarrow> presentation_page" where
  "pauseAudio p =
     (case audioRef p of
        None \<Rightarrow> p
      | Some a \<Rightarrow>
          on_store (setPlaying False)
            ((emit AudioPause p)\<lparr>audioRef := Some (a\<lparr>paused := True\<rparr>),
                                  pausedPosition := currentTime a\<rparr>))"

text \<open>
  What \<open>startSlideAudio\<close> awaits: whether \<open>play()\<close> of the pre-generated file
  resolves, the reply of the real-time synthesis (\<open>Inl\<close>: rejected; \<open>Inr b\<close>: resolved,
  \<open>b\<close> telling whether \<open>audioResponse.data\<close> is truthy), and whether \<open>play()\<close> of
  the synthesised audio resolves.
\<close>

record audio_env =
  play_resolves :: bool
  tts_reply :: "failure + bool"
  tts_play_resolves :: bool

text \<open>
  Both branches of \<open>startSlideAudio\<close> do the same with the element: set \<open>src\<close>, set
  \<open>currentTime\<close>, install the listeners, call \<open>play()\<close>, and on its resolution
  \<open>setPlaying(true)\<close>. A rejected \<open>play()\<close> leaves the element positioned and not
  playing.
\<close>

definition play_element ::
  "audio_source \<Rightarrow> real \<Rightarrow> bool \<Rightarrow> audio_element \<Rightarrow> presentation_page \<Rightarrow> presentation_page" where
  "play_element source pos resolves a p =
     (let a1 = a\<lparr>src := source, currentTime := pos, onended := True\<rparr>;
          p1 = emit (AudioPlay source pos) (p\<lparr>audioRef := Some a1\<rparr>)
      in if resolves
         then on_store (setPlaying True) (p1\<lparr>audioRef := Some (a1\<lparr>paused := False\<rparr>)\<rparr>)
         else p1)"

text \<open>\<open>currentCourse.audio_files && currentCourse.audio_files[currentSlide]\<close>, when truthy.\<close>

definition audio_file_at :: "course \<Rightarrow> int \<Rightarrow> string option" where
  "audio_file_at c i =
     (case audio_files c of
        None \<Rightarrow> None
      | Some fs \<Rightarrow> (case js_index fs i of Some (Some f) \<Rightarrow> js_or (Some f) None | _ \<Rightarrow> None))"

text \<open>The fallback of \<open>startSlideAudio\<close>: real-time synthesis of the slide's narration.\<close>

definition realtime_tts ::
  "slide \<Rightarrow> real \<Rightarrow> audio_env \<Rightarrow> presentation_page \<Rightarrow> presentation_page" where
  "realtime_tts slideData pos env p =
     (let p1 = emit (PostAudioGenerate (transcript slideData)) p
      in case tts_reply env of
           Inl e \<Rightarrow> toast_error ''Audio playback temporarily unavailable'' p1
         | Inr has_data \<Rightarrow>
             (case audioRef p1 of
                None \<Rightarrow> p1
              | Some a \<Rightarrow>
                  if has_data
                  then (if tts_play_resolves env then play_element ObjectUrl pos True a p1
                        else toast_error ''Audio playback temporarily unavailable''
                               (play_element ObjectUrl pos False a p1))
                  else p1))"

text \<open>
  \<open>startSlideAudio(overridePosition = null)\<close>. The position is
  \<open>overridePosition !== null ? overridePosition : pausedPosition\<close>. Reading
  \<open>currentCourse.audio_files\<close> on a missing course throws inside the outer \<open>try\<close>.
\<close>

definition startSlideAudio ::
  "real option \<Rightarrow> audio_env \<Rightarrow> presentation_page \<Rightarrow> presentation_page" where
  "startSlideAudio overridePosition env p =
     (case getCurrentSlideData (pstore p) of
        None \<Rightarrow> p
      | Some slideData \<Rightarrow>
          (case js_or (transcript slideData) None of
             None \<Rightarrow> p
           | Some t \<Rightarrow>
               (case currentCourse (pstore p) of
                  None \<Rightarrow> toast_error ''Failed to play audio'' p
                | Some c \<Rightarrow>
                    (let pos = (case overridePosition of Some x \<Rightarrow> x | None \<Rightarrow> pausedPosition p)
                     in case audio_file_at c (currentSlide (pstore p)) of
                          None \<Rightarrow> realtime_tts slideData pos env p
                        | Some f \<Rightarrow>
                            (case audioRef p of
                               None \<Rightarrow> realtime_tts slideData pos env p
                             | Some a \<Rightarrow>
                                 if play_resolves env
                                 then play_element (AudioFile f) pos True a p
                                 else realtime_tts slideData pos env
                                        (play_element (AudioFile f) pos False a p))))))"

definition togglePlayPause :: "audio_env \<Rightarrow> presentation_page \<Rightarrow> presentation_page" where
  "togglePlayPause env p =
     (if isPlaying (pstore p) then pauseAudio p else startSlideAudio None env p)"

definition handleSlideChange :: "string \<Rightarrow> presentation_page \<Rightarrow> presentation_page" where
  "handleSlideChange direction p =
     (let p1 = pauseAudio p;
          p2 = on_store (setAudioProgress 0) (p1\<lparr>pausedPosition := 0\<rparr>);
          p3 = p2\<lparr>manuallyResumed := False\<rparr>;
          p4 = (case audioRef p3 of
                  None \<Rightarrow> p3
                | Some a \<Rightarrow> p3\<lparr>audioRef := Some (a\<lparr>onended := False\<rparr>)\<rparr>)
      in if direction = ''next'' \<and> hasNextSlide (pstore p4) then on_store nextSlide p4
         else if direction = ''prev'' \<and> hasPreviousSlide (pstore p4) then on_store previousSlide p4
         else p4)"


subsection \<open>The question and answer loop\<close>

text \<open>
  \<open>getCurrentSlideImageUrl\<close> closes over the \<open>slideImages\<close> and the \<open>currentSlide\<close>
  of the render it was created in; they are its arguments here.
\<close>

definition getCurrentSlideImageUrl :: "slide_image list \<Rightarrow> int \<Rightarrow> string option" where
  "getCurrentSlideImageUrl images slide_index =
     (if length images > 0
      then (case js_index images slide_index of
              None \<Rightarrow> None
            | Some img \<Rightarrow> image_url img)
      else None)"

text \<open>\<open>slideData?.transcript || ''\<close>\<close>

definition transcript_or_empty :: "slide option \<Rightarrow> string" where
  "transcript_or_empty slideData =
     (case js_or (case slideData of None \<Rightarrow> None | Some sd \<Rightarrow> transcript sd) (Some []) of
        None \<Rightarrow> []
      | Some t \<Rightarrow> t)"

text \<open>The body of \<open>/conversation/start\<close>'s reply; \<open>None\<close> for the reply when it has no body.\<close>

record start_data =
  conversation_session_id :: "string option"

text \<open>
  \<open>startConversation\<close> is the click handler of the current render and reads the slide
  before its first \<open>await\<close>: the \<open>currentSlide\<close> and \<open>slideImages\<close> it closes over
  are those of the page it runs on.
\<close>

definition startConversation ::
  "(failure + start_data option) \<Rightarrow> presentation_page \<Rightarrow> presentation_page" where
  "startConversation start_reply p =
     (let p1 = (case audioRef p of
                  None \<Rightarrow> p
                | Some a \<Rightarrow>
                    if isPlaying (pstore p)
                    then on_store (setPlaying False)
                           ((emit AudioPause p)\<lparr>audioRef := Some (a\<lparr>paused := True\<rparr>),
                                                 pausedPosition := currentTime a\<rparr>)
                    else p);
          slideData = getCurrentSlideData (pstore p1);
          slideImageUrl = getCurrentSlideImageUrl (slideImages p) (currentSlide (pstore p));
          p2 = emit (PostConversationStart (sessionId p)
                       \<lparr>slide_number = currentSlide (pstore p) + 1,
                        ctx_transcript = transcript_or_empty slideData,
                        slide_image_url = slideImageUrl\<rparr>) p1
      in case start_reply of
           Inr (Some d) \<Rightarrow>
             on_store (setConversationActive True)
               (p2\<lparr>conversationSession := conversation_session_id d\<rparr>)
         | _ \<Rightarrow> toast_error ''Failed to start conversation'' p2)"

definition stopAISpeech :: "presentation_page \<Rightarrow> presentation_page" where
  "stopAISpeech p = (if aiAudioRef p then p\<lparr>isAISpeaking := False, aiAudioRef := False\<rparr> else p)"


text \<open>
  What a recording keeps of the render in which it was started. \<open>toggleRecording\<close>
  installs the recorder's \<open>onstop\<close> handler when the recording starts, and that handler
  calls the \<open>processRecording\<close> of the same render: its \<open>currentSlide\<close>,
  \<open>slideImages\<close>, \<open>conversationSession\<close> and \<open>userSettings\<close> are those of the page
  at that moment, whatever the page is when the recording stops.
\<close>

record render =
  r_currentSlide :: int
  r_slideImages :: "slide_image list"
  r_conversationSession :: "string option"
  r_userSettings :: jsobject

definition render_of :: "presentation_page \<Rightarrow> render" where
  "render_of p =
     \<lparr>r_currentSlide = currentSlide (pstore p), r_slideImages = slideImages p,
      r_conversationSession = conversationSession p, r_userSettings = userSettings (pstore p)\<rparr>"

text \<open>
  \<open>toggleRecording\<close>: stop the recorder when recording; otherwise ask for the microphone
  (\<open>microphone\<close> tells whether \<open>getUserMedia\<close> resolves) and start a recorder whose
  \<open>onstop\<close> handler holds \<open>render_of p\<close>.
\<close>

definition toggleRecording :: "bool \<Rightarrow> presentation_page \<Rightarrow> presentation_page" where
  "toggleRecording microphone p =
     (if isRecording p
      then (if mediaRecorderRef p then (emit RecorderStop p)\<lparr>isRecording := False\<rparr> else p)
      else if microphone
      then (emit RecorderStart p)\<lparr>mediaRecorderRef := True, isRecording := True\<rparr>
      else toast_error ''Failed to access microphone'' p)"

text \<open>
  The body of the speech-to-text reply: falsy, a string, or an object with the keys
  \<open>transcription\<close> and \<open>text\<close>. \<open>transcriptionText\<close> is
  \<open>data.transcription || data.text || data\<close>: a string, or the object itself when
  neither key is truthy.
\<close>

datatype stt_data = SttEmpty | SttString string | SttObject "string option" "string option"

datatype transcription = TString string | TObject

definition transcriptionText :: "stt_data \<Rightarrow> transcription" where
  "transcriptionText d =
     (case d of
        SttEmpty \<Rightarrow> TString []
      | SttString s \<Rightarrow> TString s
      | SttObject tr tx \<Rightarrow>
          (case js_or (js_or tr tx) None of Some t \<Rightarrow> TString t | None \<Rightarrow> TObject))"

record ask_data =
  response :: "string option"
  answer :: "string option"

text \<open>
  What \<open>processRecording\<close> awaits and reads: the replies of the transcription, of the
  responder and of the synthesis of the answer (\<open>Inr b\<close>: resolved, \<open>b\<close> telling whether
  the reply has a body), whether \<open>play()\<close> of the spoken answer resolves, and the two
  readings of the clock. \<open>string_to_number\<close> is the engine's conversion of a string to a
  number (\<open>None\<close> for \<open>NaN\<close>), which the model does not compute.
\<close>

record recording_env =
  stt_reply :: "failure + stt_data"
  ask_reply :: "failure + ask_data option"
  speech_reply :: "failure + bool"
  speech_play_resolves :: bool
  now_question :: string
  now_answer :: string
  string_to_number :: "string \<Rightarrow> real option"

text \<open>\<open>userSettings.tts\<close> is \<open>undefined\<close> or \<open>null\<close>, so that reading \<open>.voice\<close> throws.\<close>

definition tts_settings_missing :: "jsobject \<Rightarrow> bool" where
  "tts_settings_missing settings =
     (case settings ''tts'' of
        None \<Rightarrow> True | Some JUndefined \<Rightarrow> True | Some JNull \<Rightarrow> True | Some _ \<Rightarrow> False)"

text \<open>
  \<open>userSettings.tts.volume\<close>, for a \<open>tts\<close> that is not missing: the value of the key
  when \<open>tts\<close> is an object that has it, \<open>undefined\<close> otherwise.
\<close>

definition tts_volume :: "jsobject \<Rightarrow> json" where
  "tts_volume settings =
     (case settings ''tts'' of
        Some (JObj entries) \<Rightarrow> (case map_of entries ''volume'' of Some v \<Rightarrow> v | None \<Rightarrow> JUndefined)
      | _ \<Rightarrow> JUndefined)"

text \<open>The conversion of a value to a number; \<open>None\<close> is \<open>NaN\<close>.\<close>

definition js_to_number :: "(string \<Rightarrow> real option) \<Rightarrow> json \<Rightarrow> real option" where
  "js_to_number of_string v =
     (case v of
        JUndefined \<Rightarrow> None
      | JNull \<Rightarrow> Some 0
      | JBool b \<Rightarrow> Some (if b then 1 else 0)
      | JNum x \<Rightarrow> Some x
      | JStr s \<Rightarrow> of_string s
      | JObj entries \<Rightarrow> None)"

text \<open>
  The assignment \<open>aiAudio.volume = v\<close> throws unless \<open>v\<close> converts to a number from 0
  to 1.
\<close>

definition volume_accepted :: "(string \<Rightarrow> real option) \<Rightarrow> json \<Rightarrow> bool" where
  "volume_accepted of_string v =
     (case js_to_number of_string v of None \<Rightarrow> False | Some x \<Rightarrow> 0 \<le> x \<and> x \<le> 1)"

text \<open>
  \<open>speakAIResponse\<close>, its whole body in one \<open>try\<close>: every throw ends in
  \<open>setIsAISpeaking(false)\<close>. \<open>settings\<close> is the \<open>userSettings\<close> it closes over.
\<close>

definition speakAIResponse ::
  "string option \<Rightarrow> jsobject \<Rightarrow> recording_env \<Rightarrow> presentation_page \<Rightarrow> presentation_page" where
  "speakAIResponse responseText settings env p =
     (let p1 = (stopAISpeech p)\<lparr>isAISpeaking := True\<rparr>
      in if tts_settings_missing settings then p1\<lparr>isAISpeaking := False\<rparr>
         else
           (let p2 = emit (PostAudioGenerate responseText) p1
            in case speech_reply env of
                 Inl e \<Rightarrow> p2\<lparr>isAISpeaking := False\<rparr>
               | Inr has_data \<Rightarrow>
                   if has_data
                   then (let p3 = p2\<lparr>aiAudioRef := True\<rparr>
                         in if volume_accepted (string_to_number env) (tts_volume settings)
                            then (let p4 = emit AiAudioPlay p3
                                  in if speech_play_resolves env then p4
                                     else p4\<lparr>isAISpeaking := False\<rparr>)
                            else p3\<lparr>isAISpeaking := False\<rparr>)
                   else p2\<lparr>isAISpeaking := False\<rparr>))"

text \<open>
  \<open>processRecording\<close>, called by the \<open>onstop\<close> handler with the render \<open>r\<close> of the
  start of the recording, on the page \<open>p\<close> of the moment the recording stops. The slide
  number, the image URL, the conversation session and the settings are those of \<open>r\<close>;
  \<open>getCurrentSlideData()\<close> reads the store of \<open>p\<close> through \<open>get()\<close>, and the messages
  are added to that store.
\<close>

definition processRecording ::
  "render \<Rightarrow> recording_env \<Rightarrow> presentation_page \<Rightarrow> presentation_page" where
  "processRecording r env p =
     (let p1 = emit PostSttTranscribe p;
          failed = toast_error ''Failed to process recording''
      in case stt_reply env of
           Inl e \<Rightarrow> failed p1
         | Inr d \<Rightarrow>
             (case transcriptionText d of
                TObject \<Rightarrow> failed p1
              | TString transcription \<Rightarrow>
                  if transcription \<noteq> [] \<and> trim transcription \<noteq> []
                  then
                    (let p2 = on_store (addConversationMessage
                                 \<lparr>role = ''user'', content = Some transcription,
                                  timestamp = now_question env\<rparr>) p1;
                         slideData = getCurrentSlideData (pstore p2);
                         slideImageUrl = getCurrentSlideImageUrl (r_slideImages r) (r_currentSlide r);
                         p3 = emit (PostConversationAsk (r_conversationSession r) transcription
                                      \<lparr>slide_number = r_currentSlide r + 1,
                                       ctx_transcript = transcript_or_empty slideData,
                                       slide_image_url = slideImageUrl\<rparr>) p2
                     in case ask_reply env of
                          Inr (Some r_data) \<Rightarrow>
                            (let aiResponseText = js_or (response r_data) (answer r_data);
                                 p4 = on_store (addConversationMessage
                                        \<lparr>role = ''teacher'', content = aiResponseText,
                                         timestamp = now_answer env\<rparr>) p3
                             in speakAIResponse aiResponseText (r_userSettings r) env p4)
                        | _ \<Rightarrow> failed p3)
                  else emit (ToastPlain ''No speech detected. Please try again.'') p1))"

text \<open>
  The slide context in the words of the specification, for comparison with the objects
  the two handlers build: the slide number is \<open>currentSlide + 1\<close>, the transcript is that
  of the current slide, or the empty string when there is no current slide or it has no
  transcript, and the image URL is that of the image at index \<open>currentSlide\<close>, or
  \<open>null\<close> when there is none.
\<close>

definition current_slide_context :: "presentation_page \<Rightarrow> slide_context" where
  "current_slide_context p =
     \<lparr>slide_number = currentSlide (pstore p) + 1,
      ctx_transcript =
        (case getCurrentSlideData (pstore p) of
           None \<Rightarrow> []
         | Some sd \<Rightarrow> (case transcript sd of None \<Rightarrow> [] | Some t \<Rightarrow> t)),
      slide_image_url =
        (case js_index (slideImages p) (currentSlide (pstore p)) of
           None \<Rightarrow> None
         | Some img \<Rightarrow> image_url img)\<rparr>"

subsection \<open>Example data\<close>

definition courseA :: course where
  "courseA = \<lparr>session_id = ''a1'', slides_content = None, audio_files = None\<rparr>"

definition courseB :: course where
  "courseB =
     \<lparr>session_id = ''b2'',
      slides_content = Some [\<lparr>title = ''Intro'', transcript = Some ''Welcome''\<rparr>,
                             \<lparr>title = ''Outro'', transcript = None\<rparr>],
      audio_files = Some [Some ''b2_0.wav'', None]\<rparr>"

definition emptyDeck :: course where
  "emptyDeck = \<lparr>session_id = ''e0'', slides_content = Some [], audio_files = None\<rparr>"

definition home_with_topic :: "string \<Rightarrow> home_page" where
  "home_with_topic t = on_store (updateCourseConfig [''topic'' \<mapsto> JStr t]) initialHome"

definition env_connected :: generation_env where
  "env_connected =
     \<lparr>socket_connected = True, connect_failure = None, generate_reply = Inr (Some ''s1'')\<rparr>"

definition env_connect_timeout :: generation_env where
  "env_connect_timeout =
     \<lparr>socket_connected = False, connect_failure = Some socket_timeout,
      generate_reply = Inr (Some ''s1'')\<rparr>"


definition env_audio_ok :: audio_env where
  "env_audio_ok = \<lparr>play_resolves = True, tts_reply = Inr True, tts_play_resolves = True\<rparr>"


definition env_recording_ok :: recording_env where
  "env_recording_ok =
     \<lparr>stt_reply = Inr (SttObject (Some ''What is a graph?'') None),
      ask_reply = Inr (Some \<lparr>response = Some ''A set of nodes and edges.'', answer = None\<rparr>),
      speech_reply = Inr True, speech_play_resolves = True,
      now_question = ''2024-01-01T10:00:00.000Z'', now_answer = ''2024-01-01T10:00:03.000Z'',
      string_to_number = (\<lambda>s. None)\<rparr>"






text \<open>
  A course of two narrated slides with their images, and a player in a conversation on
  its first slide.
\<close>

definition courseC :: course where
  "courseC =
     \<lparr>session_id = ''c3'',
      slides_content = Some [\<lparr>title = ''One'', transcript = Some ''First slide''\<rparr>,
                             \<lparr>title = ''Two'', transcript = Some ''Second slide''\<rparr>],
      audio_files = None\<rparr>"

definition askingPage :: presentation_page where
  "askingPage =
     \<lparr>pstore = initialStore\<lparr>currentCourse := Some courseC, isConversationActive := True\<rparr>,
      effects = [],
      sessionId = ''c3'', isRecording = False, conversationSession = Some ''conv1'',
      pausedPosition = 0, showResumeOptions = False,
      slideImages = [\<lparr>image_url = Some ''/slides/c3/0.png''\<rparr>,
                     \<lparr>image_url = Some ''/slides/c3/1.png''\<rparr>],
      isAISpeaking = False, manuallyResumed = False,
      audioRef = Some \<lparr>src = NoSource, currentTime = 0, paused = True, onended = False\<rparr>,
      mediaRecorderRef = False, aiAudioRef = False\<rparr>"

text \<open>
  The user starts a recording on the first slide, moves to the next slide while it runs,
  and stops it: the page when the recorder stops. Its \<open>onstop\<close> handler holds
  \<open>render_of askingPage\<close>.
\<close>

definition askedAfterSlideChange :: presentation_page where
  "askedAfterSlideChange =
     toggleRecording True (handleSlideChange ''next'' (toggleRecording True askingPage))"

section \<open>Properties of the store\<close>

text \<open>
  C7. The transcript is an ordered list that only grows within a conversation:
  \<open>addConversationMessage m\<close> sets \<open>conversationHistory\<close> to the old history with
  \<open>m\<close> appended at the end, so the old history is the prefix of the new one of the old
  length (every earlier message and its position are unchanged) and no other field of the
  store changes; \<open>clearConversationHistory\<close> sets it to the empty list.
\<close>

theorem addConversationMessage_appends:
  "conversationHistory (addConversationMessage m s) = conversationHistory s @ [m]
   \<and> take (length (conversationHistory s)) (conversationHistory (addConversationMessage m s))
       = conversationHistory s
   \<and> length (conversationHistory (addConversationMessage m s))
       = Suc (length (conversationHistory s))
   \<and> last (conversationHistory (addConversationMessage m s)) = m
   \<and> addConversationMessage m s = s\<lparr>conversationHistory := conversationHistory s @ [m]\<rparr>
   \<and> conversationHistory (clearConversationHistory s) = []"
  by (simp add: addConversationMessage_def clearConversationHistory_def)

text \<open>
  C8. Configuration updates are shallow merges that touch one field:
  \<open>updateCourseConfig u\<close> gives every top-level key present in \<open>u\<close> its value in
  \<open>u\<close>, leaves every top-level key of \<open>courseConfig\<close> absent from \<open>u\<close> as it was,
  and changes no field of the store but \<open>courseConfig\<close>; \<open>updateUserSettings u\<close> does
  the same on \<open>userSettings\<close>.
\<close>

theorem update_config_shallow_merge:
  "(\<forall>k v. u k = Some v \<longrightarrow> courseConfig (updateCourseConfig u s) k = Some v)
   \<and> (\<forall>k. u k = None \<longrightarrow> courseConfig (updateCourseConfig u s) k = courseConfig s k)
   \<and> updateCourseConfig u s = s\<lparr>courseConfig := courseConfig (updateCourseConfig u s)\<rparr>
   \<and> (\<forall>k v. u k = Some v \<longrightarrow> userSettings (updateUserSettings u s) k = Some v)
   \<and> (\<forall>k. u k = None \<longrightarrow> userSettings (updateUserSettings u s) k = userSettings s k)
   \<and> updateUserSettings u s = s\<lparr>userSettings := userSettings (updateUserSettings u s)\<rparr>"
  by (simp add: updateCourseConfig_def updateUserSettings_def spread_def)

theorem update_config_shallow_merge_witness:
  "courseConfig (updateCourseConfig [''topic'' \<mapsto> JStr ''Graphs''] initialStore) ''topic''
     = Some (JStr ''Graphs'')
   \<and> courseConfig (updateCourseConfig [''topic'' \<mapsto> JStr ''Graphs''] initialStore) ''voice''
     = Some (JStr ''default'')
   \<and> userSettings (updateUserSettings [''tts'' \<mapsto> JNull] initialStore) ''tts'' = Some JNull
   \<and> userSettings (updateUserSettings [''tts'' \<mapsto> JNull] initialStore) ''presentation''
     = Some (JObj [(''theme'', JStr ''dark''), (''layout'', JStr ''modern''),
                   (''animations'', JBool True), (''auto_advance'', JBool True)])"
  using update_config_shallow_merge [of "[''topic'' \<mapsto> JStr ''Graphs'']" initialStore]
    update_config_shallow_merge [of "[''tts'' \<mapsto> JNull]" initialStore]
  by (simp add: initialStore_def initialCourseConfig_def initialUserSettings_def)

text \<open>
  C9. Removal from the library is idempotent, and it undoes an addition:
  \<open>removeCourse sid\<close> applied twice gives what it gives applied once; and when no
  course of the list has session id \<open>sid\<close>, adding a course whose session id is
  \<open>sid\<close> and then removing \<open>sid\<close> gives back the original store, the list in its
  original order.
\<close>

theorem removeCourse_idempotent_undoes_addCourse:
  "removeCourse sid (removeCourse sid s) = removeCourse sid s
   \<and> ((\<forall>c' \<in> set (courses s). session_id c' \<noteq> sid) \<and> session_id c = sid
        \<longrightarrow> removeCourse sid (addCourse c s) = s)"
proof -
  have idem: "removeCourse sid (removeCourse sid s) = removeCourse sid s"
    by (simp add: removeCourse_def)
  have inv: "removeCourse sid (addCourse c s) = s"
    if fresh: "\<forall>c' \<in> set (courses s). session_id c' \<noteq> sid" and new: "session_id c = sid"
  proof -
    from fresh have "filter (\<lambda>c'. session_id c' \<noteq> sid) (courses s) = courses s"
      by (simp add: filter_id_conv)
    with new show ?thesis
      by (simp add: removeCourse_def addCourse_def)
  qed
  from idem inv show ?thesis by blast
qed

theorem removeCourse_idempotent_undoes_addCourse_witness:
  "removeCourse ''b2'' (removeCourse ''b2'' (initialStore\<lparr>courses := [courseA, courseB]\<rparr>))
     = removeCourse ''b2'' (initialStore\<lparr>courses := [courseA, courseB]\<rparr>)
   \<and> removeCourse ''b2'' (addCourse courseB (initialStore\<lparr>courses := [courseA]\<rparr>))
     = initialStore\<lparr>courses := [courseA]\<rparr>"
  using removeCourse_idempotent_undoes_addCourse
          [of "''b2''" "initialStore\<lparr>courses := [courseA, courseB]\<rparr>" courseB]
    removeCourse_idempotent_undoes_addCourse
          [of "''b2''" "initialStore\<lparr>courses := [courseA]\<rparr>" courseB]
  by (simp add: courseA_def courseB_def)

text \<open>
  C10. \<open>getCurrentSlideData\<close> is total: the source reads through optional chaining and an
  array index, neither of which throws, so the model has no error branch and gives a
  value for every store. It is \<open>null\<close> when no course is loaded, when the course has no
  \<open>slides_content\<close>, and when \<open>currentSlide\<close> is negative or not below the length of
  the list; otherwise it is the slide at index \<open>currentSlide\<close>.
\<close>

theorem getCurrentSlideData_total:
  "(currentCourse s = None \<longrightarrow> getCurrentSlideData s = None)
   \<and> (\<forall>c. currentCourse s = Some c \<and> slides_content c = None
         \<longrightarrow> getCurrentSlideData s = None)
   \<and> (\<forall>c xs. currentCourse s = Some c \<and> slides_content c = Some xs
         \<and> (currentSlide s < 0 \<or> int (length xs) \<le> currentSlide s)
         \<longrightarrow> getCurrentSlideData s = None)
   \<and> (\<forall>c xs. currentCourse s = Some c \<and> slides_content c = Some xs
         \<and> 0 \<le> currentSlide s \<and> currentSlide s < int (length xs)
         \<longrightarrow> getCurrentSlideData s = Some (xs ! nat (currentSlide s)))"
  by (auto simp: getCurrentSlideData_def js_index_def)

theorem getCurrentSlideData_total_witness:
  "getCurrentSlideData initialStore = None
   \<and> getCurrentSlideData (initialStore\<lparr>currentCourse := Some courseA\<rparr>) = None
   \<and> getCurrentSlideData (initialStore\<lparr>currentCourse := Some courseB, currentSlide := 2\<rparr>) = None
   \<and> getCurrentSlideData (initialStore\<lparr>currentCourse := Some courseB, currentSlide := - 1\<rparr>) = None
   \<and> getCurrentSlideData (initialStore\<lparr>currentCourse := Some courseB, currentSlide := 1\<rparr>)
       = Some \<lparr>title = ''Outro'', transcript = None\<rparr>"
  using getCurrentSlideData_total [of initialStore]
    getCurrentSlideData_total [of "initialStore\<lparr>currentCourse := Some courseA\<rparr>"]
    getCurrentSlideData_total [of "initialStore\<lparr>currentCourse := Some courseB, currentSlide := 2\<rparr>"]
    getCurrentSlideData_total [of "initialStore\<lparr>currentCourse := Some courseB, currentSlide := - 1\<rparr>"]
    getCurrentSlideData_total [of "initialStore\<lparr>currentCourse := Some courseB, currentSlide := 1\<rparr>"]
  by (simp add: initialStore_def courseA_def courseB_def)

text \<open>
  C1. The slide sequencer is meant to keep the current slide inside the deck, with last
  index \<open>0\<close> when no slides are loaded. On a course whose \<open>slides_content\<close> is the
  empty list the source computes \<open>maxSlide\<close> as \<open>0 - 1 || 0\<close>, and \<open>-1\<close> is truthy:
  from \<open>currentSlide = 0\<close>, \<open>nextSlide\<close> sets \<open>currentSlide\<close> to \<open>-1\<close>, below the
  deck. (\<open>hasNextSlide\<close> is false there, so the player's buttons do not reach the call.)
\<close>

theorem nextSlide_empty_deck_negative:
  "currentSlide (initialStore\<lparr>currentCourse := Some emptyDeck\<rparr>) = 0
   \<and> maxSlide (initialStore\<lparr>currentCourse := Some emptyDeck\<rparr>) = - 1
   \<and> currentSlide (nextSlide (initialStore\<lparr>currentCourse := Some emptyDeck\<rparr>)) = - 1
   \<and> hasNextSlide (initialStore\<lparr>currentCourse := Some emptyDeck\<rparr>) = False"
  by (simp add: nextSlide_def maxSlide_def js_or_zero_def js_minus_one_def slides_length_def
      initialStore_def emptyDeck_def hasNextSlide_def)

text \<open>
  What the sequencer does guarantee: away from the empty list, \<open>nextSlide\<close> moves to
  \<open>min (currentSlide + 1)\<close> of the last index (\<open>0\<close> without course or slides) and stays
  in the deck; \<open>previousSlide\<close> moves to \<open>max (currentSlide - 1) 0\<close> on every store.
\<close>

lemma nextSlide_in_deck:
  assumes "0 \<le> currentSlide s" and "slides_length s \<noteq> Some 0"
  shows "currentSlide (nextSlide s)
           = min (currentSlide s + 1) (case slides_length s of None \<Rightarrow> 0 | Some n \<Rightarrow> n - 1)
         \<and> 0 \<le> currentSlide (nextSlide s)
         \<and> currentSlide (nextSlide s) \<le> (case slides_length s of None \<Rightarrow> 0 | Some n \<Rightarrow> n - 1)"
  using assms
  by (auto simp: nextSlide_def maxSlide_def js_or_zero_def js_minus_one_def slides_length_def
      split: option.splits)

lemma previousSlide_clamped:
  "currentSlide (previousSlide s) = max (currentSlide s - 1) 0
   \<and> 0 \<le> currentSlide (previousSlide s)"
  by (simp add: previousSlide_def)

text \<open>
  The player reaches \<open>nextSlide\<close> and \<open>previousSlide\<close> through \<open>handleSlideChange\<close>,
  which asks \<open>hasNextSlide\<close> and \<open>hasPreviousSlide\<close> first: through it the current slide
  never becomes negative, the empty deck included.
\<close>

lemma handleSlideChange_not_negative:
  assumes "0 \<le> currentSlide (pstore p)"
  shows "0 \<le> currentSlide (pstore (handleSlideChange direction p))"
proof -
  have paused: "currentSlide (pstore (pauseAudio p)) = currentSlide (pstore p)"
    by (simp add: pauseAudio_def on_store_def emit_def setPlaying_def split: option.split)
  with assms show ?thesis
    by (auto simp: handleSlideChange_def Let_def on_store_def setAudioProgress_def nextSlide_def
        previousSlide_def hasNextSlide_def hasPreviousSlide_def split: option.split)
qed

text \<open>
  The library page removes a course from the list exactly when the user confirmed and the
  backend deleted it.
\<close>

lemma handleDeleteCourse_store:
  "pstore (handleDeleteCourse True None sid p) = removeCourse sid (pstore p)
   \<and> pstore (handleDeleteCourse True (Some e) sid p) = pstore p
   \<and> pstore (handleDeleteCourse False delete_failure sid p) = pstore p"
  by (simp add: handleDeleteCourse_def Let_def on_store_def emit_def toast_error_def)

section \<open>Properties of the generation page\<close>

text \<open>
  C2. After a terminal event of the channel the client is not generating: the handler of
  \<open>course_complete\<close> leaves \<open>isGenerating\<close> false, \<open>currentSession\<close> equal to the
  event's \<open>session_id\<close> and \<open>currentCourse\<close> equal to the event's \<open>course_data\<close>;
  the handler of \<open>course_error\<close> changes the store in \<open>isGenerating\<close> only, setting
  it to false, so \<open>currentSession\<close> and \<open>currentCourse\<close> are as before. This holds
  from every page state, for every payload.
\<close>

theorem terminal_events_stop_generating:
  "isGenerating (pstore (on_course_complete now data h)) = False
   \<and> currentSession (pstore (on_course_complete now data h)) = ev_session_id data
   \<and> currentCourse (pstore (on_course_complete now data h)) = ev_course_data data
   \<and> isGenerating (pstore (on_course_error now err h)) = False
   \<and> currentSession (pstore (on_course_error now err h)) = currentSession (pstore h)
   \<and> currentCourse (pstore (on_course_error now err h)) = currentCourse (pstore h)
   \<and> pstore (on_course_error now err h) = (pstore h)\<lparr>isGenerating := False\<rparr>"
  by (simp add: on_course_complete_def on_course_error_def on_store_def emit_def toast_error_def
      stopHealthCheck_def setGenerating_def setCurrentSession_def setCurrentCourse_def Let_def
      split: option.split)

lemma trim_Graphs: "trim ''Graphs'' = ''Graphs''"
  by (simp add: trim_def js_whitespace_def)

lemma trim_spaces: "trim ''  '' = []"
  by (simp add: trim_def js_whitespace_def)

lemma home_with_topic_topic: "courseConfig (pstore (home_with_topic t)) ''topic'' = Some (JStr t)"
  by (simp add: home_with_topic_def on_store_def updateCourseConfig_def spread_def)

lemma home_with_topic_effects: "effects (home_with_topic t) = []"
  by (simp add: home_with_topic_def on_store_def initialHome_def)

text \<open>
  C5, as stated, fails in its last clause. With the topic \<open>Graphs\<close>, a socket that is not
  connected and a connection attempt that times out, \<open>handleStartGeneration\<close> calls
  \<open>socket.connect()\<close>, reports the timeout, and ends with \<open>isGenerating\<close> false: the
  generate-course request is not issued.
\<close>

theorem handleStartGeneration_timeout_no_request:
  "trim ''Graphs'' \<noteq> []
   \<and> isl (handleStartGeneration env_connect_timeout (home_with_topic ''Graphs'')) = False
   \<and> effects (projr (handleStartGeneration env_connect_timeout (home_with_topic ''Graphs'')))
       = [SocketConnect,
          ToastError ''Connection timeout - please check your network and try again'']
   \<and> isGenerating
         (pstore (projr (handleStartGeneration env_connect_timeout (home_with_topic ''Graphs''))))
       = False"
  by (simp add: trim_Graphs handleStartGeneration_def handleStartGeneration_steps_def
      home_with_topic_def env_connect_timeout_def on_store_def updateCourseConfig_def spread_def
      initialHome_def initialStore_def generation_failed_def socket_timeout_def emit_def
      toast_error_def setGenerating_def Let_def)

text \<open>
  C5, amended. Generation starts only for a topic that does not trim to the empty string.
  For a topic that does, \<open>handleStartGeneration\<close> reports an error and returns without an
  \<open>await\<close>: the toast is all it issues, the store is unchanged, and the Generate button
  is disabled. For any other topic the handler sets \<open>isGenerating\<close> to true: at its
  first \<open>await\<close> the store is the old one with \<open>isGenerating\<close> true, and all it has
  issued is the request (socket connected) or \<open>socket.connect()\<close> (socket not
  connected). Then, if the socket is connected or its connection attempt succeeds, the
  handler issues the generate-course request with the configuration, exactly once, and
  \<open>isGenerating\<close> stays true unless the request is rejected; if the connection attempt
  fails or times out, it issues nothing but \<open>socket.connect()\<close> and one error toast, so
  no request, and sets \<open>isGenerating\<close> back to false.
\<close>

theorem handleStartGeneration_topic_guard:
  assumes topic: "courseConfig (pstore h) ''topic'' = Some (JStr topic)"
  shows
    "(trim topic = [] \<longrightarrow>
        handleStartGeneration_steps env h
          = Inr [toast_error ''Please enter a topic to learn'' h]
        \<and> handleStartGeneration env h = Inr (toast_error ''Please enter a topic to learn'' h)
        \<and> issued h (projr (handleStartGeneration env h))
            = [ToastError ''Please enter a topic to learn'']
        \<and> pstore (projr (handleStartGeneration env h)) = pstore h
        \<and> generate_disabled (pstore h) = Inr True)
     \<and> (trim topic \<noteq> [] \<longrightarrow>
        (\<exists>awaiting rest.
            handleStartGeneration_steps env h = Inr (awaiting # rest) \<and> rest \<noteq> []
            \<and> handleStartGeneration env h = Inr (last rest)
            \<and> pstore awaiting = (pstore h)\<lparr>isGenerating := True\<rparr>
            \<and> issued h awaiting
                = (if socket_connected env then [PostGenerateCourse (courseConfig (pstore h))]
                   else [SocketConnect])
            \<and> list_all (\<lambda>page. isGenerating (pstore page)) (butlast (awaiting # rest)))
        \<and> (if socket_connected env \<or> connect_failure env = None
            then (\<exists>after.
                    issued h (projr (handleStartGeneration env h))
                      = (if socket_connected env then [] else [SocketConnect])
                        @ PostGenerateCourse (courseConfig (pstore h)) # after
                    \<and> (\<forall>config. PostGenerateCourse config \<notin> set after))
                 \<and> isGenerating (pstore (projr (handleStartGeneration env h)))
                     = (\<not> isl (generate_reply env))
            else (\<exists>msg. issued h (projr (handleStartGeneration env h))
                          = [SocketConnect, ToastError msg])
                 \<and> isGenerating (pstore (projr (handleStartGeneration env h))) = False))"
proof (intro conjI impI)
  assume blank: "trim topic = []"
  from topic blank show steps: "handleStartGeneration_steps env h
      = Inr [toast_error ''Please enter a topic to learn'' h]"
    by (simp add: handleStartGeneration_steps_def)
  then show "handleStartGeneration env h = Inr (toast_error ''Please enter a topic to learn'' h)"
    by (simp add: handleStartGeneration_def)
  from steps show "issued h (projr (handleStartGeneration env h))
      = [ToastError ''Please enter a topic to learn'']"
    by (simp add: handleStartGeneration_def toast_error_def issued_def)
  from steps show "pstore (projr (handleStartGeneration env h)) = pstore h"
    by (simp add: handleStartGeneration_def toast_error_def)
  from topic blank show "generate_disabled (pstore h) = Inr True"
    by (simp add: generate_disabled_def)
next
  assume nonblank: "trim topic \<noteq> []"
  let ?h1 = "on_store (setGenerating True) h"
  let ?h2 = "emit SocketConnect ?h1"
  let ?config = "courseConfig (pstore h)"
  have request: "\<exists>final. generation_request ?config env q = [emit (PostGenerateCourse ?config) q, final]"
    for q
    by (simp add: generation_request_def Let_def)
  show "\<exists>awaiting rest.
      handleStartGeneration_steps env h = Inr (awaiting # rest) \<and> rest \<noteq> []
      \<and> handleStartGeneration env h = Inr (last rest)
      \<and> pstore awaiting = (pstore h)\<lparr>isGenerating := True\<rparr>
      \<and> issued h awaiting
          = (if socket_connected env then [PostGenerateCourse (courseConfig (pstore h))]
             else [SocketConnect])
      \<and> list_all (\<lambda>page. isGenerating (pstore page)) (butlast (awaiting # rest))"
  proof (cases "socket_connected env")
    case True
    obtain final where final: "generation_request ?config env ?h1
        = [emit (PostGenerateCourse ?config) ?h1, final]"
      using request [of ?h1] by blast
    with topic nonblank True
    have "handleStartGeneration_steps env h = Inr [emit (PostGenerateCourse ?config) ?h1, final]"
      by (simp add: handleStartGeneration_steps_def Let_def)
    with True show ?thesis
      by (intro exI [of _ "emit (PostGenerateCourse ?config) ?h1"] exI [of _ "[final]"])
        (simp add: handleStartGeneration_def emit_def on_store_def setGenerating_def issued_def)
  next
    case False
    show ?thesis
    proof (cases "connect_failure env")
      case (Some e)
      with topic nonblank False
      have "handleStartGeneration_steps env h = Inr [?h2, generation_failed e ?h2]"
        by (simp add: handleStartGeneration_steps_def Let_def)
      with False show ?thesis
        by (intro exI [of _ ?h2] exI [of _ "[generation_failed e ?h2]"])
          (simp add: handleStartGeneration_def emit_def on_store_def setGenerating_def issued_def)
    next
      case None
      obtain final where final: "generation_request ?config env ?h2
          = [emit (PostGenerateCourse ?config) ?h2, final]"
        using request [of ?h2] by blast
      with topic nonblank False None
      have "handleStartGeneration_steps env h
          = Inr [?h2, emit (PostGenerateCourse ?config) ?h2, final]"
        by (simp add: handleStartGeneration_steps_def Let_def)
      with False show ?thesis
        by (intro exI [of _ ?h2] exI [of _ "[emit (PostGenerateCourse ?config) ?h2, final]"])
          (simp add: handleStartGeneration_def emit_def on_store_def setGenerating_def issued_def)
    qed
  qed
  show "if socket_connected env \<or> connect_failure env = None
        then (\<exists>after.
                issued h (projr (handleStartGeneration env h))
                  = (if socket_connected env then [] else [SocketConnect])
                    @ PostGenerateCourse (courseConfig (pstore h)) # after
                \<and> (\<forall>config. PostGenerateCourse config \<notin> set after))
             \<and> isGenerating (pstore (projr (handleStartGeneration env h)))
                 = (\<not> isl (generate_reply env))
        else (\<exists>msg. issued h (projr (handleStartGeneration env h))
                      = [SocketConnect, ToastError msg])
             \<and> isGenerating (pstore (projr (handleStartGeneration env h))) = False"
    using topic nonblank
    by (auto simp: handleStartGeneration_def handleStartGeneration_steps_def
        generation_request_def generation_failed_def on_store_def emit_def toast_error_def
        setGenerating_def setCurrentSession_def issued_def Let_def
        split: option.splits sum.splits)
qed

theorem handleStartGeneration_topic_guard_witness:
  "issued (home_with_topic ''  '') (projr (handleStartGeneration env_connected (home_with_topic ''  '')))
     = [ToastError ''Please enter a topic to learn'']
   \<and> pstore (projr (handleStartGeneration env_connected (home_with_topic ''  '')))
       = pstore (home_with_topic ''  '')
   \<and> map (\<lambda>page. isGenerating (pstore page))
        (projr (handleStartGeneration_steps env_connected (home_with_topic ''Graphs'')))
       = [True, True]
   \<and> issued (home_with_topic ''Graphs'')
        (projr (handleStartGeneration env_connected (home_with_topic ''Graphs'')))
       = [PostGenerateCourse (courseConfig (pstore (home_with_topic ''Graphs''))),
          SocketEmitJoinSession ''s1'']
   \<and> map (\<lambda>page. isGenerating (pstore page))
        (projr (handleStartGeneration_steps env_connect_timeout (home_with_topic ''Graphs'')))
       = [True, False]
   \<and> issued (home_with_topic ''Graphs'')
        (projr (handleStartGeneration env_connect_timeout (home_with_topic ''Graphs'')))
       = [SocketConnect,
          ToastError ''Connection timeout - please check your network and try again'']"
proof -
  note blank = handleStartGeneration_topic_guard
      [OF home_with_topic_topic, of "''  ''" env_connected]
  note connected = handleStartGeneration_topic_guard
      [OF home_with_topic_topic, of "''Graphs''" env_connected]
  note timeout = handleStartGeneration_topic_guard
      [OF home_with_topic_topic, of "''Graphs''" env_connect_timeout]
  have c1: "issued (home_with_topic ''  '')
        (projr (handleStartGeneration env_connected (home_with_topic ''  '')))
      = [ToastError ''Please enter a topic to learn'']"
    and c2: "pstore (projr (handleStartGeneration env_connected (home_with_topic ''  '')))
      = pstore (home_with_topic ''  '')"
    using blank by (simp_all add: trim_spaces toast_error_def issued_def)
  have evaluated:
    "map (\<lambda>page. isGenerating (pstore page))
        (projr (handleStartGeneration_steps env_connected (home_with_topic ''Graphs'')))
       = [True, True]"
    "issued (home_with_topic ''Graphs'')
        (projr (handleStartGeneration env_connected (home_with_topic ''Graphs'')))
       = [PostGenerateCourse (courseConfig (pstore (home_with_topic ''Graphs''))),
          SocketEmitJoinSession ''s1'']"
    "map (\<lambda>page. isGenerating (pstore page))
        (projr (handleStartGeneration_steps env_connect_timeout (home_with_topic ''Graphs'')))
       = [True, False]"
    "issued (home_with_topic ''Graphs'')
        (projr (handleStartGeneration env_connect_timeout (home_with_topic ''Graphs'')))
       = [SocketConnect,
          ToastError ''Connection timeout - please check your network and try again'']"
    using connected timeout
    by (simp_all add: trim_Graphs handleStartGeneration_def handleStartGeneration_steps_def
        home_with_topic_topic home_with_topic_effects env_connected_def env_connect_timeout_def
        generation_request_def generation_failed_def socket_timeout_def on_store_def emit_def
        toast_error_def setGenerating_def setCurrentSession_def issued_def Let_def)
  from c1 c2 evaluated show ?thesis by simp
qed

section \<open>Properties of the presentation player\<close>

subsection \<open>Lemmas on strings and on the log\<close>

lemma trim_empty_iff: "trim t = [] \<longleftrightarrow> (\<forall>c \<in> set t. js_whitespace c)"
proof
  assume "trim t = []"
  then have rest: "\<forall>c \<in> set (dropWhile js_whitespace t). js_whitespace c"
    by (simp add: trim_def dropWhile_eq_Nil_conv)
  show "\<forall>c \<in> set t. js_whitespace c"
  proof (cases "dropWhile js_whitespace t")
    case Nil
    then show ?thesis by (simp add: dropWhile_eq_Nil_conv)
  next
    case (Cons y ys)
    then have "\<not> js_whitespace y"
      using hd_dropWhile [of js_whitespace t] by simp
    moreover from Cons rest have "js_whitespace y" by simp
    ultimately show ?thesis by simp
  qed
next
  assume "\<forall>c \<in> set t. js_whitespace c"
  then have nil: "dropWhile js_whitespace t = []"
    by (simp add: dropWhile_eq_Nil_conv)
  show "trim t = []"
    by (simp only: trim_def nil rev.simps dropWhile.simps)
qed

lemma issued_append [simp]: "effects p' = effects p @ es \<Longrightarrow> issued p p' = es"
  by (simp add: issued_def)

lemma speakAIResponse_pstore [simp]: "pstore (speakAIResponse txt settings env p) = pstore p"
  by (simp add: speakAIResponse_def stopAISpeech_def emit_def Let_def split: sum.split)

lemma speakAIResponse_effects:
  "\<exists>es. effects (speakAIResponse txt settings env p) = effects p @ es
        \<and> set es \<subseteq> {PostAudioGenerate txt, AiAudioPlay}"
  by (auto simp: speakAIResponse_def stopAISpeech_def emit_def Let_def split: sum.split)

lemma getCurrentSlideData_frame [simp]:
  "getCurrentSlideData (s\<lparr>isPlaying := b\<rparr>) = getCurrentSlideData s"
  "getCurrentSlideData (s\<lparr>conversationHistory := hs\<rparr>) = getCurrentSlideData s"
  by (simp_all add: getCurrentSlideData_def split: option.split)

text \<open>
  The object a handler builds from the slide, the images and the store of one page is the
  context of the specification for that page.
\<close>

lemma built_context:
  "\<lparr>slide_number = currentSlide (pstore p) + 1,
    ctx_transcript = transcript_or_empty (getCurrentSlideData (pstore p)),
    slide_image_url = getCurrentSlideImageUrl (slideImages p) (currentSlide (pstore p))\<rparr>
     = current_slide_context p"
  by (auto simp: current_slide_context_def transcript_or_empty_def getCurrentSlideImageUrl_def
      js_or_def js_index_def split: option.splits)

subsection \<open>The transcript of a conversation\<close>


lemma transcription_question: "transcriptionText (SttObject (Some ''What is a graph?'') None)
    = TString ''What is a graph?''"
  by (simp add: transcriptionText_def js_or_def)

lemma trim_question: "trim ''What is a graph?'' \<noteq> []"
  by (simp add: trim_empty_iff js_whitespace_def)



subsection \<open>The slide context of a conversation\<close>

text \<open>
  What holds of the two requests. \<open>startConversation\<close> sends one start request, for the
  page's session, with the context of the slide on display. Every ask request that
  \<open>processRecording\<close> sends has the slide number and the image of the render in which
  the recording started and the transcript of the slide the store shows when the
  recording stops; when the page has not changed slide in between, that is the context of
  the slide on display.
\<close>

lemma startConversation_sends_slide_context:
  "PostConversationStart (sessionId p) (current_slide_context p)
     \<in> set (issued p (startConversation reply p))
   \<and> (\<forall>sid ctx. PostConversationStart sid ctx \<in> set (issued p (startConversation reply p))
         \<longrightarrow> sid = sessionId p \<and> ctx = current_slide_context p)"
proof -
  define post where
    "post = (case reply of Inr (Some d) \<Rightarrow> [] | _ \<Rightarrow> [ToastError ''Failed to start conversation''])"
  have post: "set post \<subseteq> {ToastError ''Failed to start conversation''}"
    by (auto simp: post_def split: sum.split option.split)
  have start: "\<exists>pre post. issued p (startConversation reply p)
        = pre @ [PostConversationStart (sessionId p) (current_slide_context p)] @ post
        \<and> set pre \<subseteq> {AudioPause} \<and> set post \<subseteq> {ToastError ''Failed to start conversation''}"
  proof (cases "audioRef p")
    case None
    then have "issued p (startConversation reply p)
        = [] @ [PostConversationStart (sessionId p) (current_slide_context p)] @ post"
      by (simp add: startConversation_def Let_def emit_def on_store_def toast_error_def
          issued_def built_context post_def split: sum.split option.split)
    with post show ?thesis
      by (intro exI [of _ "[]"] exI [of _ post]) simp
  next
    case (Some a)
    show ?thesis
    proof (cases "isPlaying (pstore p)")
      case True
      with Some have "issued p (startConversation reply p)
          = [AudioPause] @ [PostConversationStart (sessionId p) (current_slide_context p)] @ post"
        by (simp add: startConversation_def Let_def emit_def on_store_def toast_error_def
            issued_def setPlaying_def built_context post_def split: sum.split option.split)
      with post show ?thesis
        by (intro exI [of _ "[AudioPause]"] exI [of _ post]) simp
    next
      case False
      with Some have "issued p (startConversation reply p)
          = [] @ [PostConversationStart (sessionId p) (current_slide_context p)] @ post"
        by (simp add: startConversation_def Let_def emit_def on_store_def toast_error_def
            issued_def built_context post_def split: sum.split option.split)
      with post show ?thesis
        by (intro exI [of _ "[]"] exI [of _ post]) simp
    qed
  qed
  then show ?thesis by auto
qed

lemma processRecording_ask_context:
  assumes "PostConversationAsk cs q ctx \<in> set (issued p (processRecording r env p))"
  shows "ctx = \<lparr>slide_number = r_currentSlide r + 1,
                ctx_transcript = ctx_transcript (current_slide_context p),
                slide_image_url = getCurrentSlideImageUrl (r_slideImages r) (r_currentSlide r)\<rparr>
         \<and> cs = r_conversationSession r"
proof -
  have live: "transcript_or_empty (getCurrentSlideData (pstore p))
      = ctx_transcript (current_slide_context p)"
    using built_context [of p] by (simp add: current_slide_context_def)
  show ?thesis
  proof (cases "stt_reply env")
    case (Inl e)
    with assms show ?thesis
      by (simp add: processRecording_def Let_def emit_def toast_error_def issued_def)
  next
    case (Inr d)
    show ?thesis
    proof (cases "transcriptionText d")
      case TObject
      with Inr assms show ?thesis
        by (simp add: processRecording_def Let_def emit_def toast_error_def issued_def)
    next
      case (TString t)
      show ?thesis
      proof (cases "t \<noteq> [] \<and> trim t \<noteq> []")
        case False
        with Inr TString assms show ?thesis
          by (auto simp: processRecording_def Let_def emit_def toast_error_def issued_def)
      next
        case True
        obtain es where es:
            "\<And>txt st q. effects (speakAIResponse txt st env q) = effects q @ es txt st q"
          and es_sub: "\<And>txt st q. set (es txt st q) \<subseteq> {PostAudioGenerate txt, AiAudioPlay}"
          using speakAIResponse_effects [of _ _ env] by metis
        from Inr TString True assms show ?thesis
          using es_sub
          by (auto simp: processRecording_def Let_def emit_def toast_error_def issued_def
              on_store_def addConversationMessage_def live es
              split: sum.splits option.splits)
      qed
    qed
  qed
qed

lemma processRecording_same_slide:
  assumes "PostConversationAsk cs q ctx \<in> set (issued p (processRecording (render_of p) env p))"
  shows "ctx = current_slide_context p"
  using processRecording_ask_context [OF assms] built_context [of p]
  by (simp add: render_of_def current_slide_context_def)

text \<open>
  C4. Every conversation request is meant to carry the context of the slide on display
  when the conversation starts or the question is asked. \<open>startConversation\<close> does
  (lemma \<open>startConversation_sends_slide_context\<close>). \<open>processRecording\<close> does not when
  the slide changed during the recording: the user starts a recording on the first slide
  of \<open>courseC\<close>, presses Next while it runs (the button stays enabled in a
  conversation) and stops it. The second slide is on display, and its context has slide
  number 2, the transcript \<open>Second slide\<close> and the second image; the ask request carries
  slide number 1 and the first image, which the handler took from the render of the start
  of the recording, with the transcript \<open>Second slide\<close>, which it read from the store:
  neither the context of the slide on display nor that of the first slide.
\<close>

theorem processRecording_stale_slide_context:
  "currentSlide (pstore askedAfterSlideChange) = 1
   \<and> current_slide_context askedAfterSlideChange
       = \<lparr>slide_number = 2, ctx_transcript = ''Second slide'',
          slide_image_url = Some ''/slides/c3/1.png''\<rparr>
   \<and> current_slide_context askingPage
       = \<lparr>slide_number = 1, ctx_transcript = ''First slide'',
          slide_image_url = Some ''/slides/c3/0.png''\<rparr>
   \<and> issued askedAfterSlideChange
        (processRecording (render_of askingPage) env_recording_ok askedAfterSlideChange)
       = [PostSttTranscribe,
          PostConversationAsk (Some ''conv1'') ''What is a graph?''
            \<lparr>slide_number = 1, ctx_transcript = ''Second slide'',
             slide_image_url = Some ''/slides/c3/0.png''\<rparr>,
          PostAudioGenerate (Some ''A set of nodes and edges.''),
          AiAudioPlay]"
proof -
  have store: "pstore askedAfterSlideChange
      = (pstore askingPage)\<lparr>currentSlide := 1\<rparr>"
    by (simp add: askedAfterSlideChange_def toggleRecording_def handleSlideChange_def
        pauseAudio_def askingPage_def courseC_def initialStore_def emit_def on_store_def
        setPlaying_def setAudioProgress_def hasNextSlide_def maxSlide_def slides_length_def
        js_minus_one_def js_or_zero_def nextSlide_def Let_def)
  have images: "slideImages askedAfterSlideChange = slideImages askingPage"
    by (simp add: askedAfterSlideChange_def toggleRecording_def handleSlideChange_def
        pauseAudio_def askingPage_def courseC_def initialStore_def emit_def on_store_def
        setPlaying_def setAudioProgress_def hasNextSlide_def maxSlide_def slides_length_def
        js_minus_one_def js_or_zero_def nextSlide_def Let_def)
  have slide: "currentSlide (pstore askedAfterSlideChange) = 1"
    by (simp add: store)
  have shown: "current_slide_context askedAfterSlideChange
      = \<lparr>slide_number = 2, ctx_transcript = ''Second slide'',
         slide_image_url = Some ''/slides/c3/1.png''\<rparr>"
    by (simp add: current_slide_context_def store images askingPage_def courseC_def
        initialStore_def getCurrentSlideData_def js_index_def)
  have first: "current_slide_context askingPage
      = \<lparr>slide_number = 1, ctx_transcript = ''First slide'',
         slide_image_url = Some ''/slides/c3/0.png''\<rparr>"
    by (simp add: current_slide_context_def askingPage_def courseC_def initialStore_def
        getCurrentSlideData_def js_index_def)
  have data: "getCurrentSlideData (pstore askedAfterSlideChange)
      = Some \<lparr>title = ''Two'', transcript = Some ''Second slide''\<rparr>"
    by (simp add: store askingPage_def courseC_def initialStore_def getCurrentSlideData_def
        js_index_def)
  have spoken: "effects (speakAIResponse words (r_userSettings (render_of askingPage))
        env_recording_ok q) = effects q @ [PostAudioGenerate words, AiAudioPlay]" for words q
    by (simp add: speakAIResponse_def stopAISpeech_def emit_def Let_def render_of_def
        askingPage_def initialStore_def initialUserSettings_def tts_settings_missing_def
        tts_volume_def volume_accepted_def js_to_number_def env_recording_ok_def)
  have closure: "r_currentSlide (render_of askingPage) = 0
      \<and> r_slideImages (render_of askingPage)
          = [\<lparr>image_url = Some ''/slides/c3/0.png''\<rparr>, \<lparr>image_url = Some ''/slides/c3/1.png''\<rparr>]
      \<and> r_conversationSession (render_of askingPage) = Some ''conv1''"
    by (simp add: render_of_def askingPage_def initialStore_def)
  have replies: "stt_reply env_recording_ok = Inr (SttObject (Some ''What is a graph?'') None)
      \<and> ask_reply env_recording_ok
          = Inr (Some \<lparr>response = Some ''A set of nodes and edges.'', answer = None\<rparr>)"
    by (simp add: env_recording_ok_def)
  have sent: "issued askedAfterSlideChange
        (processRecording (render_of askingPage) env_recording_ok askedAfterSlideChange)
      = [PostSttTranscribe,
         PostConversationAsk (Some ''conv1'') ''What is a graph?''
           \<lparr>slide_number = 1, ctx_transcript = ''Second slide'',
            slide_image_url = Some ''/slides/c3/0.png''\<rparr>,
         PostAudioGenerate (Some ''A set of nodes and edges.''),
         AiAudioPlay]"
    using trim_question
    by (simp add: processRecording_def Let_def closure replies spoken data emit_def on_store_def
        addConversationMessage_def issued_def transcription_question transcript_or_empty_def
        getCurrentSlideImageUrl_def js_index_def js_or_def)
  from slide shown first sent show ?thesis by simp
qed

subsection \<open>Pause and resume\<close>

lemma play_element_log:
  "effects (play_element source pos resolves a p) = effects p @ [AudioPlay source pos]
   \<and> pausedPosition (play_element source pos resolves a p) = pausedPosition p
   \<and> showResumeOptions (play_element source pos resolves a p) = showResumeOptions p
   \<and> (\<exists>a'. audioRef (play_element source pos resolves a p) = Some a' \<and> currentTime a' = pos)"
  by (simp add: play_element_def Let_def emit_def on_store_def)


lemma realtime_tts_frame [simp]:
  "pausedPosition (realtime_tts slideData pos env p) = pausedPosition p"
  "showResumeOptions (realtime_tts slideData pos env p) = showResumeOptions p"
  by (simp_all add: realtime_tts_def Let_def emit_def toast_error_def play_element_log
      split: sum.split option.split)



lemma startSlideAudio_frame [simp]:
  "pausedPosition (startSlideAudio ov env p) = pausedPosition p"
  "showResumeOptions (startSlideAudio ov env p) = showResumeOptions p"
  by (simp_all add: startSlideAudio_def Let_def toast_error_def play_element_log
      split: option.split)






end
